theory Spec2Isabelle
  imports Main "HOL-Library.Sublist"
begin

section \<open>The two post-edit hooks for Go files\<close>

text \<open>
  The file \<^verbatim>\<open>scripts/hooks/post-edit-typecheck-go.js\<close> holds two Node.js scripts. The
  first (VetHook) runs \<^verbatim>\<open>go vet\<close> in the module of the edited file and reports the
  diagnostics that mention the file; the second (FormatHook) runs \<^verbatim>\<open>goimports -w\<close> on
  the edited file. Both read an edit event from standard input and echo it with
  \<^verbatim>\<open>console.log\<close>.

  A JavaScript string is a sequence of code units; a \<^typ>\<open>string\<close> of the model stands
  for it, one \<^typ>\<open>char\<close> per code unit, and \<open>length\<close> is the \<^verbatim>\<open>.length\<close> of the
  source. Standard input is decoded by \<^verbatim>\<open>setEncoding('utf8')\<close> before the scripts see
  it, so the model starts from the list of decoded chunks handed to the
  \<^verbatim>\<open>'data'\<close> listener.
\<close>

subsection \<open>JavaScript values\<close>

text \<open>
  The values \<^verbatim>\<open>JSON.parse\<close> can return, and \<^verbatim>\<open>undefined\<close>. A number is held as the
  text \<^verbatim>\<open>String(n)\<close> gives for it (\<^verbatim>\<open>JSON.parse\<close> never yields NaN, and both zeros
  print as \<^verbatim>\<open>0\<close>); an object as the list of its own properties.
\<close>

datatype jsval =
    Undefined
  | Null
  | Bool bool
  | Num string
  | Str string
  | Arr "jsval list"
  | Obj "(string \<times> jsval) list"

text \<open>
  Reading the property \<open>k\<close> of a value, for a name \<open>k\<close> that no prototype defines and
  that is not an array index (the hooks read \<^verbatim>\<open>tool_input\<close> and \<^verbatim>\<open>file_path\<close> only).
  \<open>None\<close> is the TypeError raised on \<^verbatim>\<open>undefined\<close> and \<^verbatim>\<open>null\<close>.
\<close>

fun get_prop :: "jsval \<Rightarrow> string \<Rightarrow> jsval option" where
  "get_prop Undefined k = None"
| "get_prop Null k = None"
| "get_prop (Obj kvs) k = (case map_of kvs k of None \<Rightarrow> Some Undefined | Some v \<Rightarrow> Some v)"
| "get_prop v k = Some Undefined"

text \<open>Optional chaining \<^verbatim>\<open>v?.k\<close>: \<^verbatim>\<open>undefined\<close> when \<open>v\<close> is nullish, never a TypeError.\<close>

fun opt_chain :: "jsval \<Rightarrow> string \<Rightarrow> jsval" where
  "opt_chain Undefined k = Undefined"
| "opt_chain Null k = Undefined"
| "opt_chain (Obj kvs) k = (case map_of kvs k of None \<Rightarrow> Undefined | Some v \<Rightarrow> v)"
| "opt_chain v k = Undefined"

text \<open>\<^verbatim>\<open>input.tool_input?.file_path\<close>\<close>

definition file_path_of :: "jsval \<Rightarrow> jsval option" where
  "file_path_of input =
     (case get_prop input ''tool_input'' of
        None \<Rightarrow> None
      | Some tool_input \<Rightarrow> Some (opt_chain tool_input ''file_path''))"

text \<open>Truthiness, as the left operand of \<^verbatim>\<open>&&\<close> is tested.\<close>

fun truthy :: "jsval \<Rightarrow> bool" where
  "truthy Undefined = False"
| "truthy Null = False"
| "truthy (Bool b) = b"
| "truthy (Num n) = (n \<noteq> ''0'')"
| "truthy (Str s) = (s \<noteq> [])"
| "truthy (Arr xs) = True"
| "truthy (Obj kvs) = True"

fun join_comma :: "string list \<Rightarrow> string" where
  "join_comma [] = []"
| "join_comma [s] = s"
| "join_comma (s # t # ss) = s @ '','' @ join_comma (t # ss)"

text \<open>
  \<^verbatim>\<open>String(v)\<close>, which \<^verbatim>\<open>RegExp.prototype.test\<close> applies to its argument. An array
  prints its elements separated by commas, with nothing for \<^verbatim>\<open>null\<close> and
  \<^verbatim>\<open>undefined\<close> elements.
\<close>

fun to_string :: "jsval \<Rightarrow> string" where
  "to_string Undefined = ''undefined''"
| "to_string Null = ''null''"
| "to_string (Bool b) = (if b then ''true'' else ''false'')"
| "to_string (Num n) = n"
| "to_string (Str s) = s"
| "to_string (Arr xs) =
     join_comma (map (\<lambda>x. if x = Undefined \<or> x = Null then [] else to_string x) xs)"
| "to_string (Obj kvs) = ''[object Object]''"

definition ends_with :: "string \<Rightarrow> string \<Rightarrow> bool" where
  "ends_with s suf = (length suf \<le> length s \<and> drop (length s - length suf) s = suf)"

text \<open>\<^verbatim>\<open>/\.go$/.test(v)\<close>: without the \<^verbatim>\<open>m\<close> flag, \<^verbatim>\<open>$\<close> is the end of the string.\<close>

definition test_go :: "jsval \<Rightarrow> bool" where
  "test_go v = ends_with (to_string v) ''.go''"

subsection \<open>Strings\<close>

definition newline :: char where
  "newline = CHR 0x0A"

text \<open>\<^verbatim>\<open>s.split('\n')\<close>: never empty, one more piece than there are newlines.\<close>

fun split_nl :: "string \<Rightarrow> string list" where
  "split_nl [] = [[]]"
| "split_nl (c # cs) =
     (if c = newline then [] # split_nl cs
      else (case split_nl cs of [] \<Rightarrow> [[c]] | l # ls \<Rightarrow> (c # l) # ls))"

text \<open>\<^verbatim>\<open>line.includes(pat)\<close>: \<open>pat\<close> occurs in \<open>line\<close> as a contiguous piece.\<close>

fun str_includes :: "string \<Rightarrow> string \<Rightarrow> bool" where
  "str_includes [] pat = (pat = [])"
| "str_includes (c # cs) pat = (take (length pat) (c # cs) = pat \<or> str_includes cs pat)"

subsection \<open>Reading standard input\<close>

definition MAX_STDIN :: nat where
  "MAX_STDIN = 1024 * 1024"

text \<open>
  The \<^verbatim>\<open>'data'\<close> listener, the same in both hooks:
  \<^verbatim>\<open>if (data.length < MAX_STDIN) { data += chunk; }\<close>
\<close>

definition on_data :: "string \<Rightarrow> string \<Rightarrow> string" where
  "on_data data chunk = (if length data < MAX_STDIN then data @ chunk else data)"

text \<open>
  The buffer when \<^verbatim>\<open>'end'\<close> fires: the listener has been called on every chunk of the
  stream, in order, starting from \<^verbatim>\<open>data = ''\<close>.
\<close>

definition stdin_read :: "string list \<Rightarrow> string" where
  "stdin_read chunks = foldl on_data [] chunks"

subsection \<open>What a run does\<close>

text \<open>A call of \<^verbatim>\<open>execFileSync(cmd, args, options)\<close>.\<close>

record spawn =
  cmd :: string
  args :: "jsval list"
  cwd :: "string option"
  timeout :: nat

text \<open>
  The trace of a run: the writes to standard output, the writes to the error stream, and
  the calls of \<^verbatim>\<open>execFileSync\<close>, each in order.
\<close>

record effects =
  stdout :: "string list"
  stderr :: "string list"
  spawned :: "spawn list"

definition no_effects :: effects where
  "no_effects = \<lparr>stdout = [], stderr = [], spawned = []\<rparr>"

definition console_log :: "string \<Rightarrow> effects \<Rightarrow> effects" where
  "console_log s fx = fx\<lparr>stdout := stdout fx @ [s @ [newline]]\<rparr>"

definition console_error :: "string \<Rightarrow> effects \<Rightarrow> effects" where
  "console_error s fx = fx\<lparr>stderr := stderr fx @ [s @ [newline]]\<rparr>"

text \<open>
  \<^verbatim>\<open>execFileSync\<close> returns when the child exits with code 0. Otherwise (non-zero exit,
  timeout, the program is missing) it throws an error object whose \<^verbatim>\<open>stdout\<close> and
  \<^verbatim>\<open>stderr\<close> hold what was captured, if anything.
\<close>

datatype exec_result =
    Exec_ok
  | Exec_error (err_stdout: "string option") (err_stderr: "string option")

text \<open>
  What the hooks take from Node and from the machine they run on: \<^verbatim>\<open>JSON.parse\<close>
  (\<open>None\<close> is its SyntaxError), the functions of the \<^verbatim>\<open>path\<close> module
  (\<open>path_root d\<close> is \<^verbatim>\<open>path.parse(d).root\<close>), \<^verbatim>\<open>fs.existsSync\<close>, and the outcome of
  \<^verbatim>\<open>execFileSync\<close>.
\<close>

record world =
  json_parse :: "string \<Rightarrow> jsval option"
  path_resolve :: "string \<Rightarrow> string"
  path_dirname :: "string \<Rightarrow> string"
  path_root :: "string \<Rightarrow> string"
  path_join :: "string \<Rightarrow> string \<Rightarrow> string"
  path_basename :: "string \<Rightarrow> string"
  fs_exists :: "string \<Rightarrow> bool"
  exec_file_sync :: "spawn \<Rightarrow> exec_result"

text \<open>How a block of statements ends: normally, by a \<^verbatim>\<open>throw\<close>, or by a \<^verbatim>\<open>return\<close>.\<close>

datatype completion = Normal | Thrown | Returned

subsection \<open>VetHook\<close>

text \<open>
  The loop that looks for the nearest \<^verbatim>\<open>go.mod\<close>:
  \<^verbatim>\<open>while (dir !== root && depth < 20) {
    if (fs.existsSync(path.join(dir, 'go.mod'))) break;
    dir = path.dirname(dir); depth++; }\<close>
  The result is the value of \<^verbatim>\<open>dir\<close> after the loop.
\<close>

function walk_up :: "world \<Rightarrow> string \<Rightarrow> string \<Rightarrow> nat \<Rightarrow> string" where
  "walk_up w root dir depth =
     (if dir \<noteq> root \<and> depth < 20 then
        (if fs_exists w (path_join w dir ''go.mod'') then dir
         else walk_up w root (path_dirname w dir) (depth + 1))
      else dir)"
  by pat_completeness auto
termination
  by (relation "measure (\<lambda>(w, root, dir, depth). 20 - depth)") auto

declare walk_up.simps [simp del]

text \<open>
  The test of the filter on the output lines:
  \<^verbatim>\<open>line => line.includes(filePath) || line.includes(path.basename(filePath))\<close>
\<close>

definition mentions :: "world \<Rightarrow> string \<Rightarrow> string \<Rightarrow> bool" where
  "mentions w filePath line =
     (str_includes line filePath \<or> str_includes line (path_basename w filePath))"

text \<open>
  The lines of the failed command's output that name the edited file:
  \<^verbatim>\<open>output.split('\n').filter(...).slice(0, 10)\<close>
\<close>

definition relevant_lines :: "world \<Rightarrow> string \<Rightarrow> string \<Rightarrow> string list" where
  "relevant_lines w filePath output = take 10 (filter (mentions w filePath) (split_nl output))"

text \<open>
  \<^verbatim>\<open>(err.stdout || '') + (err.stderr || '')\<close>: a missing stream counts as empty.
\<close>

definition combined_output :: "string option \<Rightarrow> string option \<Rightarrow> string" where
  "combined_output out err =
     (case out of None \<Rightarrow> [] | Some s \<Rightarrow> s) @ (case err of None \<Rightarrow> [] | Some s \<Rightarrow> s)"

text \<open>The \<^verbatim>\<open>catch (err)\<close> block around \<^verbatim>\<open>go vet\<close>.\<close>

definition vet_report ::
  "world \<Rightarrow> string \<Rightarrow> string option \<Rightarrow> string option \<Rightarrow> effects \<Rightarrow> effects" where
  "vet_report w filePath out err fx =
     (let output = combined_output out err;
          relevantLines = relevant_lines w filePath output
      in if length relevantLines > 0 then
           foldl (\<lambda>fx line. console_error line fx)
             (console_error (''[Hook] Go vet errors in '' @ path_basename w filePath @ '':'') fx)
             relevantLines
         else fx)"

definition vet_spawn :: "string \<Rightarrow> spawn" where
  "vet_spawn dir = \<lparr>cmd = ''go'', args = [Str ''vet'', Str ''./...''], cwd = Some dir, timeout = 30000\<rparr>"

text \<open>
  The body of the \<^verbatim>\<open>try\<close> block of the \<^verbatim>\<open>'end'\<close> listener. \<^verbatim>\<open>path.resolve\<close> throws a
  TypeError on an argument that is not a string.
\<close>

definition vet_try :: "world \<Rightarrow> string \<Rightarrow> effects \<Rightarrow> completion \<times> effects" where
  "vet_try w data fx =
     (case json_parse w data of
        None \<Rightarrow> (Thrown, fx)
      | Some input \<Rightarrow>
         (case file_path_of input of
            None \<Rightarrow> (Thrown, fx)
          | Some filePath \<Rightarrow>
             if truthy filePath \<and> test_go filePath then
               (case filePath of
                  Str p \<Rightarrow>
                    (let resolvedPath = path_resolve w p in
                     if \<not> fs_exists w resolvedPath then (Returned, console_log data fx)
                     else
                       (let dir0 = path_dirname w resolvedPath;
                            root = path_root w dir0;
                            dir = walk_up w root dir0 0
                        in if fs_exists w (path_join w dir ''go.mod'') then
                             (let fx1 = fx\<lparr>spawned := spawned fx @ [vet_spawn dir]\<rparr> in
                              case exec_file_sync w (vet_spawn dir) of
                                Exec_ok \<Rightarrow> (Normal, fx1)
                              | Exec_error out err \<Rightarrow> (Normal, vet_report w p out err fx1))
                           else (Normal, fx)))
                | _ \<Rightarrow> (Thrown, fx))
             else (Normal, fx)))"

text \<open>
  The \<^verbatim>\<open>'end'\<close> listener: the \<^verbatim>\<open>try\<close> block, the empty \<^verbatim>\<open>catch\<close>, then
  \<^verbatim>\<open>console.log(data)\<close>. A \<^verbatim>\<open>return\<close> inside the block leaves the listener at once.
\<close>

definition vet_on_end :: "world \<Rightarrow> string \<Rightarrow> effects \<Rightarrow> completion \<times> effects" where
  "vet_on_end w data fx =
     (case vet_try w data fx of
        (Returned, fx') \<Rightarrow> (Normal, fx')
      | (Thrown, fx') \<Rightarrow> (Normal, console_log data fx')
      | (Normal, fx') \<Rightarrow> (Normal, console_log data fx'))"

subsection \<open>FormatHook\<close>

definition fmt_spawn :: "jsval \<Rightarrow> spawn" where
  "fmt_spawn filePath = \<lparr>cmd = ''goimports'', args = [Str ''-w'', filePath], cwd = None, timeout = 15000\<rparr>"

definition fmt_try :: "world \<Rightarrow> string \<Rightarrow> effects \<Rightarrow> completion \<times> effects" where
  "fmt_try w data fx =
     (case json_parse w data of
        None \<Rightarrow> (Thrown, fx)
      | Some input \<Rightarrow>
         (case file_path_of input of
            None \<Rightarrow> (Thrown, fx)
          | Some filePath \<Rightarrow>
             if truthy filePath \<and> test_go filePath then
               (let fx1 = fx\<lparr>spawned := spawned fx @ [fmt_spawn filePath]\<rparr> in
                case exec_file_sync w (fmt_spawn filePath) of
                  Exec_ok \<Rightarrow> (Normal, fx1)
                | Exec_error out err \<Rightarrow> (Normal, fx1))
             else (Normal, fx)))"

definition fmt_on_end :: "world \<Rightarrow> string \<Rightarrow> effects \<Rightarrow> completion \<times> effects" where
  "fmt_on_end w data fx =
     (case fmt_try w data fx of
        (Returned, fx') \<Rightarrow> (Normal, fx')
      | (Thrown, fx') \<Rightarrow> (Normal, console_log data fx')
      | (Normal, fx') \<Rightarrow> (Normal, console_log data fx'))"

subsection \<open>A whole run\<close>

text \<open>
  A run feeds the chunks of standard input to the \<^verbatim>\<open>'data'\<close> listener, then calls the
  \<^verbatim>\<open>'end'\<close> listener once. The process ends with code 0 unless the listener lets an
  exception escape, which ends it with code 1.
\<close>

record run =
  trace :: effects
  exit_code :: nat

definition run_hook :: "(string \<Rightarrow> effects \<Rightarrow> completion \<times> effects) \<Rightarrow> string list \<Rightarrow> run" where
  "run_hook on_end chunks =
     (case on_end (stdin_read chunks) no_effects of
        (c, fx) \<Rightarrow> \<lparr>trace = fx, exit_code = (if c = Thrown then 1 else 0)\<rparr>)"

definition vet_hook :: "world \<Rightarrow> string list \<Rightarrow> run" where
  "vet_hook w chunks = run_hook (vet_on_end w) chunks"

definition format_hook :: "world \<Rightarrow> string list \<Rightarrow> run" where
  "format_hook w chunks = run_hook (fmt_on_end w) chunks"

subsection \<open>Directories above the edited file\<close>

text \<open>
  The directory \<open>k\<close> levels above \<open>d\<close>: \<^verbatim>\<open>path.dirname\<close> applied \<open>k\<close> times. For the
  directory \<open>d\<close> that holds the edited file, depth 0 is \<open>d\<close> itself. A marker at depth
  \<open>k\<close> is a \<^verbatim>\<open>go.mod\<close> in that directory.
\<close>

definition ancestor :: "world \<Rightarrow> string \<Rightarrow> nat \<Rightarrow> string" where
  "ancestor w d k = (path_dirname w ^^ k) d"

definition marker_at :: "world \<Rightarrow> string \<Rightarrow> nat \<Rightarrow> bool" where
  "marker_at w d k = fs_exists w (path_join w (ancestor w d k) ''go.mod'')"

subsection \<open>Concrete machines for the examples\<close>

text \<open>
  A POSIX machine whose working directory does not matter: the three functions below
  agree with Node's \<^verbatim>\<open>path.posix\<close> on absolute paths in normal form (no empty,
  \<^verbatim>\<open>.\<close> or \<^verbatim>\<open>..\<close> component, no trailing slash), \<^verbatim>\<open>path.resolve\<close> leaves such a path
  as it is, and its root is \<^verbatim>\<open>/\<close>. The machine is given by the table of what
  \<^verbatim>\<open>JSON.parse\<close> returns on the inputs of an example (every other input of the
  examples is not JSON), the paths that exist, and the outcome of \<^verbatim>\<open>execFileSync\<close>.
\<close>

definition posix_dirname :: "string \<Rightarrow> string" where
  "posix_dirname p =
     (let q = dropWhile (\<lambda>c. c \<noteq> CHR ''/'') (rev p)
      in if q = [] then ''.'' else if tl q = [] then ''/'' else rev (tl q))"

definition posix_basename :: "string \<Rightarrow> string" where
  "posix_basename p = rev (takeWhile (\<lambda>c. c \<noteq> CHR ''/'') (rev p))"

definition posix_join :: "string \<Rightarrow> string \<Rightarrow> string" where
  "posix_join d f = (if d = ''/'' then d @ f else d @ ''/'' @ f)"

definition posix_world ::
  "(string \<times> jsval) list \<Rightarrow> string list \<Rightarrow> (spawn \<Rightarrow> exec_result) \<Rightarrow> world" where
  "posix_world parses files exec =
     \<lparr>json_parse = map_of parses, path_resolve = (\<lambda>p. p), path_dirname = posix_dirname,
      path_root = (\<lambda>d. ''/''), path_join = posix_join, path_basename = posix_basename,
      fs_exists = (\<lambda>p. p \<in> set files), exec_file_sync = exec\<rparr>"

text \<open>
  The edit event \<^verbatim>\<open>{"tool_input":{"file_path":"<p>"}}\<close> for a path \<open>p\<close> that needs no
  escaping, and the value \<^verbatim>\<open>JSON.parse\<close> returns for it.
\<close>

definition edit_event :: "string \<Rightarrow> string" where
  "edit_event p = ''{\"tool_input\":{\"file_path\":\"'' @ p @ ''\"}}''"

definition edit_input :: "string \<Rightarrow> jsval" where
  "edit_input p = Obj [(''tool_input'', Obj [(''file_path'', Str p)])]"

text \<open>
  A machine with the events for \<^verbatim>\<open>/repo/pkg/x.go\<close> and \<^verbatim>\<open>/repo/README.md\<close> and the
  event \<^verbatim>\<open>{}\<close>.
\<close>

definition repo_world :: "string list \<Rightarrow> (spawn \<Rightarrow> exec_result) \<Rightarrow> world" where
  "repo_world files exec =
     posix_world
       [(edit_event ''/repo/pkg/x.go'', edit_input ''/repo/pkg/x.go''),
        (edit_event ''/repo/README.md'', edit_input ''/repo/README.md''),
        (''{}'', Obj [])]
       files exec"

text \<open>
  A module \<^verbatim>\<open>/m\<close> with \<^verbatim>\<open>/m/go.mod\<close>, and the file \<^verbatim>\<open>x.go\<close> in the directory
  \<open>n\<close> levels below \<^verbatim>\<open>/m\<close>.
\<close>

primrec deep_dir :: "nat \<Rightarrow> string" where
  "deep_dir 0 = ''/m''"
| "deep_dir (Suc n) = deep_dir n @ ''/d''"

definition deep_world :: "nat \<Rightarrow> (spawn \<Rightarrow> exec_result) \<Rightarrow> world" where
  "deep_world n exec =
     posix_world [(edit_event (deep_dir n @ ''/x.go''), edit_input (deep_dir n @ ''/x.go''))]
       [deep_dir n @ ''/x.go'', ''/m/go.mod''] exec"

text \<open>A checkout where the edited file exists and its module root is \<^verbatim>\<open>/repo\<close>.\<close>

definition repo_files :: "string list" where
  "repo_files = [''/repo/pkg/x.go'', ''/repo/go.mod'']"






text \<open>
  An event for \<^verbatim>\<open>/repo/pkg/x.go\<close> that carries 1048573 characters of content, arriving as
  a chunk of 55 characters followed by 16 chunks of 65536 characters.
\<close>

definition big_head :: string where
  "big_head = ''{\"tool_input\":{\"file_path\":\"/repo/pkg/x.go\",\"content\":\"''"

definition big_chunks :: "string list" where
  "big_chunks =
     big_head # replicate 15 (replicate 65536 CHR ''a'') @ [replicate 65533 CHR ''a'' @ ''\"}}'']"

section \<open>Properties\<close>

subsection \<open>The buffer\<close>

lemma on_data_under: "length acc < MAX_STDIN \<Longrightarrow> on_data acc chunk = acc @ chunk"
  by (simp add: on_data_def)








lemma foldl_on_data_all:
  "length (acc @ concat (butlast chunks)) < MAX_STDIN \<Longrightarrow>
   foldl on_data acc chunks = acc @ concat chunks"
proof (induction chunks arbitrary: acc)
  case Nil
  then show ?case by simp
next
  case (Cons c cs)
  then have under: "length acc < MAX_STDIN" by (simp split: if_splits)
  show ?case
  proof (cases "cs = []")
    case True
    with under show ?thesis by (simp add: on_data_under)
  next
    case False
    with Cons.prems have "length ((acc @ c) @ concat (butlast cs)) < MAX_STDIN" by simp
    then have "foldl on_data (acc @ c) cs = (acc @ c) @ concat cs" by (rule Cons.IH)
    with under show ?thesis by (simp add: on_data_under)
  qed
qed

text \<open>
  The listener tests the length before it appends, and appends the chunk whole: while
  everything before the last chunk is shorter than \<open>MAX_STDIN\<close>, the last chunk is
  appended too, whatever its length.
\<close>

lemma stdin_read_all:
  "length (concat (butlast chunks)) < MAX_STDIN \<Longrightarrow> stdin_read chunks = concat chunks"
  using foldl_on_data_all [of "[]" chunks] by (simp add: stdin_read_def)

text \<open>
  What the listener does bound: the buffer never grows beyond \<open>MAX_STDIN\<close> by more than
  the length of one chunk.
\<close>

lemma foldl_on_data_bound:
  "\<forall>c \<in> set chunks. length c \<le> k \<Longrightarrow> length acc \<le> MAX_STDIN + k \<Longrightarrow>
   length (foldl on_data acc chunks) \<le> MAX_STDIN + k"
proof (induction chunks arbitrary: acc)
  case Nil
  then show ?case by simp
next
  case (Cons c cs)
  from Cons.prems have "length c \<le> k" by simp
  with Cons.prems(2) have "length (on_data acc c) \<le> MAX_STDIN + k"
    by (simp add: on_data_def)
  moreover from Cons.prems have "\<forall>c \<in> set cs. length c \<le> k" by simp
  ultimately have "length (foldl on_data (on_data acc c) cs) \<le> MAX_STDIN + k"
    by (intro Cons.IH)
  then show ?case by simp
qed

lemma stdin_read_bound:
  "\<forall>c \<in> set chunks. length c \<le> k \<Longrightarrow> length (stdin_read chunks) \<le> MAX_STDIN + k"
  using foldl_on_data_bound [of chunks k "[]"] by (simp add: stdin_read_def)

lemma stdin_read_single: "stdin_read [c] = c"
  by (simp add: stdin_read_def on_data_under MAX_STDIN_def)

lemma length_big_head: "length big_head = 55"
  by (simp add: big_head_def)

text \<open>
  C5 (the buffer holds at most 1 MiB; what arrives beyond the cap is not appended). The
  listener does not cut the chunk that crosses the cap. On the event \<open>big_chunks\<close>, valid
  JSON naming a \<^verbatim>\<open>.go\<close> file, the buffer is 983095 characters long before the last
  chunk, so the last chunk is appended whole: the buffer is the whole input, 1048631
  characters, which is 55 more than \<open>MAX_STDIN\<close>.
\<close>

theorem buffer_exceeds_cap:
  "stdin_read big_chunks = concat big_chunks
   \<and> length (stdin_read big_chunks) = 1048631
   \<and> MAX_STDIN = 1048576"
proof -
  have "length (concat (butlast big_chunks)) < MAX_STDIN"
    by (simp add: big_chunks_def length_big_head butlast_append length_concat
          sum_list_replicate MAX_STDIN_def)
  then have eq: "stdin_read big_chunks = concat big_chunks" by (rule stdin_read_all)
  have "length (concat big_chunks) = 1048631"
    by (simp add: big_chunks_def length_big_head length_concat sum_list_replicate)
  with eq show ?thesis by (simp add: MAX_STDIN_def)
qed

subsection \<open>The write to standard output\<close>

lemma console_error_sel:
  "stdout (console_error s fx) = stdout fx"
  "spawned (console_error s fx) = spawned fx"
  "stderr (console_error s fx) = stderr fx @ [s @ [newline]]"
  by (simp_all add: console_error_def)

lemma foldl_console_error_stdout:
  "stdout (foldl (\<lambda>fx line. console_error line fx) fx ls) = stdout fx"
  by (induction ls arbitrary: fx) (simp_all add: console_error_sel)

lemma foldl_console_error_spawned:
  "spawned (foldl (\<lambda>fx line. console_error line fx) fx ls) = spawned fx"
  by (induction ls arbitrary: fx) (simp_all add: console_error_sel)


lemma vet_report_stdout: "stdout (vet_report w p out err fx) = stdout fx"
  by (simp add: vet_report_def Let_def foldl_console_error_stdout console_error_sel)

lemma vet_report_spawned: "spawned (vet_report w p out err fx) = spawned fx"
  by (simp add: vet_report_def Let_def foldl_console_error_spawned console_error_sel)

text \<open>
  The \<^verbatim>\<open>try\<close> block of VetHook writes to standard output on one path only, the one it
  leaves by \<^verbatim>\<open>return\<close>.
\<close>

lemma vet_try_stdout:
  "stdout (snd (vet_try w data fx)) =
     (if fst (vet_try w data fx) = Returned then stdout fx @ [data @ [newline]] else stdout fx)"
  by (simp add: vet_try_def Let_def console_log_def vet_report_stdout
           split: option.split jsval.split exec_result.split)

lemma vet_on_end_stdout: "stdout (snd (vet_on_end w data fx)) = stdout fx @ [data @ [newline]]"
  using vet_try_stdout [of w data fx]
  by (cases "vet_try w data fx"; cases "fst (vet_try w data fx)")
     (simp_all add: vet_on_end_def console_log_def)


lemma fmt_try_stdout: "stdout (snd (fmt_try w data fx)) = stdout fx"
  by (simp add: fmt_try_def Let_def split: option.split exec_result.split)

lemma fmt_try_not_returned: "fst (fmt_try w data fx) \<noteq> Returned"
  by (simp add: fmt_try_def Let_def split: option.split exec_result.split)

lemma fmt_on_end_stdout: "stdout (snd (fmt_on_end w data fx)) = stdout fx @ [data @ [newline]]"
  using fmt_try_stdout [of w data fx] fmt_try_not_returned [of w data fx]
  by (cases "fmt_try w data fx"; cases "fst (fmt_try w data fx)")
     (simp_all add: fmt_on_end_def console_log_def)

lemma fmt_on_end_completion: "fst (fmt_on_end w data fx) = Normal"
  by (cases "fmt_try w data fx"; cases "fst (fmt_try w data fx)")
     (simp_all add: fmt_on_end_def)

lemma run_hook_sel:
  "trace (run_hook h chunks) = snd (h (stdin_read chunks) no_effects)"
  "exit_code (run_hook h chunks) = (if fst (h (stdin_read chunks) no_effects) = Thrown then 1 else 0)"
  by (simp_all add: run_hook_def split: prod.split)

lemma vet_hook_stdout: "stdout (trace (vet_hook w chunks)) = [stdin_read chunks @ [newline]]"
  by (simp add: vet_hook_def run_hook_sel vet_on_end_stdout no_effects_def)

lemma format_hook_stdout: "stdout (trace (format_hook w chunks)) = [stdin_read chunks @ [newline]]"
  by (simp add: format_hook_def run_hook_sel fmt_on_end_stdout no_effects_def)


lemma format_hook_exit: "exit_code (format_hook w chunks) = 0"
  by (simp add: format_hook_def run_hook_sel fmt_on_end_completion)

subsection \<open>The example machines\<close>

lemma repo_parse_go:
  "json_parse (repo_world files exec) (edit_event ''/repo/pkg/x.go'') =
     Some (edit_input ''/repo/pkg/x.go'')"
  by (simp add: repo_world_def posix_world_def)

lemma repo_parse_none: "json_parse (repo_world files exec) ''not json'' = None"
  by (simp add: repo_world_def posix_world_def edit_event_def)

lemma file_path_of_edit_input: "file_path_of (edit_input p) = Some (Str p)"
  by (simp add: file_path_of_def edit_input_def)

subsection \<open>What reaches standard output\<close>


text \<open>
  C9: on every path of VetHook, the early \<^verbatim>\<open>return\<close> for a file that is not on disk
  included, the buffer is written to standard output exactly once: the line of the buffer
  occurs once among the writes, and there is one write.
\<close>

theorem vet_hook_writes_once:
  "count_list (stdout (trace (vet_hook w chunks))) (stdin_read chunks @ [newline]) = 1
   \<and> length (stdout (trace (vet_hook w chunks))) = 1"
  by (simp add: vet_hook_stdout)

text \<open>
  The early \<^verbatim>\<open>return\<close> is taken on a machine where \<^verbatim>\<open>/repo/pkg/x.go\<close> does not exist,
  and the write happens once there.
\<close>

theorem vet_hook_writes_once_early_return:
  "fst (vet_try (repo_world [] (\<lambda>sp. Exec_ok)) (stdin_read [edit_event ''/repo/pkg/x.go''])
          no_effects) = Returned
   \<and> count_list (stdout (trace (vet_hook (repo_world [] (\<lambda>sp. Exec_ok))
                                   [edit_event ''/repo/pkg/x.go''])))
        (stdin_read [edit_event ''/repo/pkg/x.go''] @ [newline]) = 1
   \<and> length (stdout (trace (vet_hook (repo_world [] (\<lambda>sp. Exec_ok))
                               [edit_event ''/repo/pkg/x.go'']))) = 1"
proof -
  have "fst (vet_try (repo_world [] (\<lambda>sp. Exec_ok)) (stdin_read [edit_event ''/repo/pkg/x.go''])
               no_effects) = Returned"
    by (simp add: vet_try_def stdin_read_single repo_parse_go file_path_of_edit_input
          test_go_def ends_with_def)
       (simp add: repo_world_def posix_world_def)
  with vet_hook_writes_once [of "repo_world [] (\<lambda>sp. Exec_ok)" "[edit_event ''/repo/pkg/x.go'']"]
  show ?thesis by simp
qed




subsection \<open>Input that is not JSON\<close>

text \<open>
  C2 as stated (on input that is not JSON, the hooks write exactly the original bytes)
  fails for the same newline: on the input \<^verbatim>\<open>not json\<close>, what reaches standard output is
  not the input.
\<close>

theorem invalid_json_not_verbatim:
  "json_parse (repo_world [] (\<lambda>sp. Exec_ok)) (stdin_read [''not json'']) = None
   \<and> concat (stdout (trace (vet_hook (repo_world [] (\<lambda>sp. Exec_ok)) [''not json''])))
       \<noteq> concat [''not json'']
   \<and> concat (stdout (trace (format_hook (repo_world [] (\<lambda>sp. Exec_ok)) [''not json''])))
       \<noteq> concat [''not json'']"
  by (simp add: vet_hook_stdout format_hook_stdout stdin_read_single repo_parse_none)

text \<open>
  C2, amended: when the buffer does not parse as JSON, each hook ends with code 0, its one
  write to standard output is the buffer followed by one newline, it calls no subprocess
  and it writes nothing to the error stream.
\<close>

theorem invalid_json_passthrough:
  assumes "json_parse w (stdin_read chunks) = None"
  shows "vet_hook w chunks =
           \<lparr>trace = \<lparr>stdout = [stdin_read chunks @ [newline]], stderr = [], spawned = []\<rparr>,
            exit_code = 0\<rparr>
         \<and> format_hook w chunks =
           \<lparr>trace = \<lparr>stdout = [stdin_read chunks @ [newline]], stderr = [], spawned = []\<rparr>,
            exit_code = 0\<rparr>"
  using assms
  by (simp add: vet_hook_def format_hook_def run_hook_def vet_on_end_def fmt_on_end_def
        vet_try_def fmt_try_def no_effects_def console_log_def)

theorem invalid_json_passthrough_witness:
  "json_parse (repo_world [] (\<lambda>sp. Exec_ok)) (stdin_read [''not json'']) = None
   \<and> vet_hook (repo_world [] (\<lambda>sp. Exec_ok)) [''not json''] =
           \<lparr>trace = \<lparr>stdout = [''not json'' @ [newline]], stderr = [], spawned = []\<rparr>,
            exit_code = 0\<rparr>
   \<and> format_hook (repo_world [] (\<lambda>sp. Exec_ok)) [''not json''] =
           \<lparr>trace = \<lparr>stdout = [''not json'' @ [newline]], stderr = [], spawned = []\<rparr>,
            exit_code = 0\<rparr>"
proof -
  have h: "json_parse (repo_world [] (\<lambda>sp. Exec_ok)) (stdin_read [''not json'']) = None"
    by (simp add: stdin_read_single repo_parse_none)
  from h invalid_json_passthrough [OF h] show ?thesis by (simp add: stdin_read_single)
qed

subsection \<open>Events that name no Go file\<close>

lemma console_log_sel:
  "stdout (console_log s fx) = stdout fx @ [s @ [newline]]"
  "stderr (console_log s fx) = stderr fx"
  "spawned (console_log s fx) = spawned fx"
  by (simp_all add: console_log_def)

lemma vet_on_end_stderr: "stderr (snd (vet_on_end w data fx)) = stderr (snd (vet_try w data fx))"
  by (cases "vet_try w data fx"; cases "fst (vet_try w data fx)")
     (simp_all add: vet_on_end_def console_log_sel)

lemma vet_on_end_spawned: "spawned (snd (vet_on_end w data fx)) = spawned (snd (vet_try w data fx))"
  by (cases "vet_try w data fx"; cases "fst (vet_try w data fx)")
     (simp_all add: vet_on_end_def console_log_sel)

lemma fmt_on_end_stderr: "stderr (snd (fmt_on_end w data fx)) = stderr (snd (fmt_try w data fx))"
  by (cases "fmt_try w data fx"; cases "fst (fmt_try w data fx)")
     (simp_all add: fmt_on_end_def console_log_sel)


lemma fmt_try_stderr: "stderr (snd (fmt_try w data fx)) = stderr fx"
  by (simp add: fmt_try_def Let_def split: option.split exec_result.split)

lemma format_hook_stderr: "stderr (trace (format_hook w chunks)) = []"
  by (simp add: format_hook_def run_hook_sel fmt_on_end_stderr fmt_try_stderr no_effects_def)

lemma vet_try_stderr_ok:
  "spawned (snd (vet_try w data fx)) = spawned fx @ [sp] \<Longrightarrow> exec_file_sync w sp = Exec_ok \<Longrightarrow>
   stderr (snd (vet_try w data fx)) = stderr fx"
  by (auto simp: vet_try_def Let_def console_log_sel vet_report_spawned
           split: option.splits jsval.splits exec_result.splits if_splits)

lemma vet_hook_stderr_ok:
  assumes "spawned (trace (vet_hook w chunks)) = [sp]" and "exec_file_sync w sp = Exec_ok"
  shows "stderr (trace (vet_hook w chunks)) = []"
proof -
  from assms(1) have "spawned (snd (vet_try w (stdin_read chunks) no_effects)) = spawned no_effects @ [sp]"
    by (simp add: vet_hook_def run_hook_sel vet_on_end_spawned no_effects_def)
  from vet_try_stderr_ok [OF this assms(2)] show ?thesis
    by (simp add: vet_hook_def run_hook_sel vet_on_end_stderr no_effects_def)
qed








subsection \<open>Events that name a Go file\<close>

lemma ends_with_nonempty: "ends_with p ''.go'' \<Longrightarrow> p \<noteq> []"
  by (auto simp: ends_with_def)

lemma vet_try_go:
  assumes "json_parse w data = Some input" and "file_path_of input = Some (Str p)"
    and "ends_with p ''.go''" and "fs_exists w (path_resolve w p)"
  shows "vet_try w data fx =
     (let dir0 = path_dirname w (path_resolve w p);
          dir = walk_up w (path_root w dir0) dir0 0
      in if fs_exists w (path_join w dir ''go.mod'') then
           (Normal, case exec_file_sync w (vet_spawn dir) of
                      Exec_ok \<Rightarrow> fx\<lparr>spawned := spawned fx @ [vet_spawn dir]\<rparr>
                    | Exec_error out err \<Rightarrow>
                        vet_report w p out err (fx\<lparr>spawned := spawned fx @ [vet_spawn dir]\<rparr>))
         else (Normal, fx))"
  using assms ends_with_nonempty [OF assms(3)]
  by (simp add: vet_try_def test_go_def Let_def split: exec_result.split)

lemma fmt_try_go:
  assumes "json_parse w data = Some input" and "file_path_of input = Some (Str p)"
    and "ends_with p ''.go''"
  shows "fmt_try w data fx = (Normal, fx\<lparr>spawned := spawned fx @ [fmt_spawn (Str p)]\<rparr>)"
  using assms ends_with_nonempty [OF assms(3)]
  by (simp add: fmt_try_def test_go_def Let_def split: exec_result.split)

lemma walk_up_root: "walk_up w root root depth = root"
  by (simp add: walk_up.simps [of w root root depth])

lemma walk_up_step:
  "dir \<noteq> root \<Longrightarrow> depth < 20 \<Longrightarrow>
   walk_up w root dir depth =
     (if fs_exists w (path_join w dir ''go.mod'') then dir
      else walk_up w root (path_dirname w dir) (Suc depth))"
  by (simp add: walk_up.simps [of w root dir depth])

lemma repo_world_sel:
  "path_resolve (repo_world files exec) p = p"
  "path_dirname (repo_world files exec) p = posix_dirname p"
  "path_root (repo_world files exec) p = ''/''"
  "path_join (repo_world files exec) d f = posix_join d f"
  "path_basename (repo_world files exec) p = posix_basename p"
  "fs_exists (repo_world files exec) p = (p \<in> set files)"
  "exec_file_sync (repo_world files exec) sp = exec sp"
  by (simp_all add: repo_world_def posix_world_def)

lemma repo_walk:
  "walk_up (repo_world files exec) ''/'' ''/repo/pkg'' 0 =
     (if ''/repo/pkg/go.mod'' \<in> set files then ''/repo/pkg''
      else if ''/repo/go.mod'' \<in> set files then ''/repo'' else ''/'')"
  by (simp add: walk_up_step walk_up_root repo_world_sel posix_join_def posix_dirname_def)

lemma ends_with_x_go: "ends_with ''/repo/pkg/x.go'' ''.go''"
  by (simp add: ends_with_def)

lemma repo_vet_try:
  assumes "''/repo/pkg/x.go'' \<in> set files" and "''/repo/pkg/go.mod'' \<notin> set files"
    and "''/repo/go.mod'' \<in> set files"
  shows "vet_try (repo_world files exec) (edit_event ''/repo/pkg/x.go'') fx =
     (Normal, case exec (vet_spawn ''/repo'') of
                Exec_ok \<Rightarrow> fx\<lparr>spawned := spawned fx @ [vet_spawn ''/repo'']\<rparr>
              | Exec_error out err \<Rightarrow>
                  vet_report (repo_world files exec) ''/repo/pkg/x.go'' out err
                    (fx\<lparr>spawned := spawned fx @ [vet_spawn ''/repo'']\<rparr>))"
proof -
  let ?w = "repo_world files exec"
  have ex: "fs_exists ?w (path_resolve ?w ''/repo/pkg/x.go'')"
    using assms by (simp add: repo_world_sel)
  have d0: "path_dirname ?w (path_resolve ?w ''/repo/pkg/x.go'') = ''/repo/pkg''"
    by (simp add: repo_world_sel posix_dirname_def)
  have wk: "walk_up ?w ''/'' ''/repo/pkg'' 0 = ''/repo''"
    using assms by (simp add: repo_walk)
  have jn: "path_join ?w ''/repo'' ''go.mod'' = ''/repo/go.mod''"
    by (simp add: repo_world_sel posix_join_def)
  show ?thesis
    using assms(3)
    by (simp add: vet_try_go [OF repo_parse_go file_path_of_edit_input ends_with_x_go ex]
          d0 wk jn Let_def repo_world_sel(3,6,7) split: exec_result.split)
qed

lemma vet_hook_trace: "trace (vet_hook w chunks) = snd (vet_on_end w (stdin_read chunks) no_effects)"
  by (simp add: vet_hook_def run_hook_sel)

lemma format_hook_trace: "trace (format_hook w chunks) = snd (fmt_on_end w (stdin_read chunks) no_effects)"
  by (simp add: format_hook_def run_hook_sel)

lemma vet_on_end_normal:
  "vet_try w data fx = (Normal, fx') \<Longrightarrow> vet_on_end w data fx = (Normal, console_log data fx')"
  by (simp add: vet_on_end_def)

lemma fmt_on_end_normal:
  "fmt_try w data fx = (Normal, fx') \<Longrightarrow> fmt_on_end w data fx = (Normal, console_log data fx')"
  by (simp add: fmt_on_end_def)

lemma repo_files_facts:
  "''/repo/pkg/x.go'' \<in> set repo_files" "''/repo/pkg/go.mod'' \<notin> set repo_files"
  "''/repo/go.mod'' \<in> set repo_files"
  by (simp_all add: repo_files_def)

lemma repo_vet_ok_trace:
  "trace (vet_hook (repo_world repo_files (\<lambda>sp. Exec_ok)) [edit_event ''/repo/pkg/x.go'']) =
     \<lparr>stdout = [edit_event ''/repo/pkg/x.go'' @ [newline]], stderr = [], spawned = [vet_spawn ''/repo'']\<rparr>"
  by (simp add: vet_hook_trace stdin_read_single
        vet_on_end_normal [OF repo_vet_try [OF repo_files_facts]] console_log_def no_effects_def)

subsection \<open>A clean analysis\<close>

text \<open>
  C7 as stated (when \<^verbatim>\<open>go vet\<close> exits with code 0, nothing goes to the error stream and
  standard output equals the original input) fails in its second half: the error stream
  stays empty, but standard output carries one more character than the input.
\<close>

theorem vet_ok_not_verbatim:
  "spawned (trace (vet_hook (repo_world repo_files (\<lambda>sp. Exec_ok)) [edit_event ''/repo/pkg/x.go'']))
     = [vet_spawn ''/repo'']
   \<and> exec_file_sync (repo_world repo_files (\<lambda>sp. Exec_ok)) (vet_spawn ''/repo'') = Exec_ok
   \<and> stderr (trace (vet_hook (repo_world repo_files (\<lambda>sp. Exec_ok)) [edit_event ''/repo/pkg/x.go''])) = []
   \<and> concat (stdout (trace (vet_hook (repo_world repo_files (\<lambda>sp. Exec_ok)) [edit_event ''/repo/pkg/x.go''])))
       \<noteq> concat [edit_event ''/repo/pkg/x.go'']"
  by (simp add: repo_vet_ok_trace repo_world_sel)

text \<open>
  C7, amended: when the \<^verbatim>\<open>go vet\<close> subprocess of a run exits with code 0, VetHook writes
  nothing to the error stream, and its one write to standard output is the buffer followed
  by one newline.
\<close>

theorem vet_ok_silent:
  assumes "spawned (trace (vet_hook w chunks)) = [sp]" and "exec_file_sync w sp = Exec_ok"
  shows "stderr (trace (vet_hook w chunks)) = []
         \<and> stdout (trace (vet_hook w chunks)) = [stdin_read chunks @ [newline]]"
  using vet_hook_stderr_ok [OF assms] by (simp add: vet_hook_stdout)

theorem vet_ok_silent_witness:
  "spawned (trace (vet_hook (repo_world repo_files (\<lambda>sp. Exec_ok)) [edit_event ''/repo/pkg/x.go'']))
     = [vet_spawn ''/repo'']
   \<and> exec_file_sync (repo_world repo_files (\<lambda>sp. Exec_ok)) (vet_spawn ''/repo'') = Exec_ok
   \<and> stderr (trace (vet_hook (repo_world repo_files (\<lambda>sp. Exec_ok)) [edit_event ''/repo/pkg/x.go''])) = []
   \<and> stdout (trace (vet_hook (repo_world repo_files (\<lambda>sp. Exec_ok)) [edit_event ''/repo/pkg/x.go'']))
       = [edit_event ''/repo/pkg/x.go'' @ [newline]]"
proof -
  let ?w = "repo_world repo_files (\<lambda>sp. Exec_ok)"
  have s: "spawned (trace (vet_hook ?w [edit_event ''/repo/pkg/x.go''])) = [vet_spawn ''/repo'']"
    by (simp add: repo_vet_ok_trace)
  have e: "exec_file_sync ?w (vet_spawn ''/repo'') = Exec_ok"
    by (simp add: repo_world_sel)
  from vet_ok_silent [OF s e] s e show ?thesis by (simp add: stdin_read_single)
qed

subsection \<open>A failing formatter\<close>

lemma repo_fmt_trace:
  "trace (format_hook (repo_world files exec) [edit_event ''/repo/pkg/x.go'']) =
     \<lparr>stdout = [edit_event ''/repo/pkg/x.go'' @ [newline]], stderr = [],
      spawned = [fmt_spawn (Str ''/repo/pkg/x.go'')]\<rparr>"
  by (simp add: format_hook_trace stdin_read_single
        fmt_on_end_normal [OF fmt_try_go [OF repo_parse_go file_path_of_edit_input ends_with_x_go]]
        console_log_def no_effects_def)

text \<open>
  C8 as stated (whatever way \<^verbatim>\<open>goimports\<close> fails, FormatHook emits the original input
  unchanged) fails: with a formatter that cannot be started, what reaches standard output
  is not the input.
\<close>

theorem fmt_failure_not_verbatim:
  "spawned (trace (format_hook (repo_world repo_files (\<lambda>sp. Exec_error None None)) [edit_event ''/repo/pkg/x.go'']))
     = [fmt_spawn (Str ''/repo/pkg/x.go'')]
   \<and> exec_file_sync (repo_world repo_files (\<lambda>sp. Exec_error None None)) (fmt_spawn (Str ''/repo/pkg/x.go''))
     = Exec_error None None
   \<and> concat (stdout (trace (format_hook (repo_world repo_files (\<lambda>sp. Exec_error None None))
                               [edit_event ''/repo/pkg/x.go''])))
       \<noteq> concat [edit_event ''/repo/pkg/x.go'']"
  by (simp add: repo_fmt_trace repo_world_sel)

text \<open>
  C8, amended: whenever the \<^verbatim>\<open>goimports\<close> call of a run fails, with whatever captured
  output, FormatHook reports nothing (the error stream stays empty), ends with code 0, and
  its one write to standard output is the buffer followed by one newline.
\<close>

theorem fmt_failure_discarded:
  assumes "spawned (trace (format_hook w chunks)) = [sp]" and "exec_file_sync w sp = Exec_error out err"
  shows "format_hook w chunks =
           \<lparr>trace = \<lparr>stdout = [stdin_read chunks @ [newline]], stderr = [], spawned = [sp]\<rparr>,
            exit_code = 0\<rparr>"
  using assms(1) format_hook_stdout [of w chunks] format_hook_stderr [of w chunks]
    format_hook_exit [of w chunks]
  by (simp add: run.equality effects.equality)

theorem fmt_failure_discarded_witness:
  "spawned (trace (format_hook (repo_world repo_files (\<lambda>sp. Exec_error None None)) [edit_event ''/repo/pkg/x.go'']))
     = [fmt_spawn (Str ''/repo/pkg/x.go'')]
   \<and> exec_file_sync (repo_world repo_files (\<lambda>sp. Exec_error None None)) (fmt_spawn (Str ''/repo/pkg/x.go''))
     = Exec_error None None
   \<and> format_hook (repo_world repo_files (\<lambda>sp. Exec_error None None)) [edit_event ''/repo/pkg/x.go''] =
        \<lparr>trace = \<lparr>stdout = [edit_event ''/repo/pkg/x.go'' @ [newline]], stderr = [],
                  spawned = [fmt_spawn (Str ''/repo/pkg/x.go'')]\<rparr>,
         exit_code = 0\<rparr>"
proof -
  let ?w = "repo_world repo_files (\<lambda>sp. Exec_error None None)"
  have s: "spawned (trace (format_hook ?w [edit_event ''/repo/pkg/x.go''])) = [fmt_spawn (Str ''/repo/pkg/x.go'')]"
    by (simp add: repo_fmt_trace)
  have e: "exec_file_sync ?w (fmt_spawn (Str ''/repo/pkg/x.go'')) = Exec_error None None"
    by (simp add: repo_world_sel)
  from fmt_failure_discarded [OF s e] s e show ?thesis by (simp add: stdin_read_single)
qed

subsection \<open>The report of a failing analysis\<close>













subsection \<open>The walk to the module root\<close>

lemma ancestor_0: "ancestor w d 0 = d"
  by (simp add: ancestor_def)

lemma ancestor_Suc: "ancestor w d (Suc k) = path_dirname w (ancestor w d k)"
  by (simp add: ancestor_def)

lemma walk_up_finds:
  assumes "j \<le> k" and "k \<le> 20" and "marker_at w d k"
    and "\<forall>i. j \<le> i \<and> i < k \<longrightarrow> \<not> marker_at w d i \<and> ancestor w d i \<noteq> root"
  shows "walk_up w root (ancestor w d j) j = ancestor w d k"
  using assms
proof (induction "k - j" arbitrary: j)
  case 0
  then have "j = k" by simp
  with \<open>marker_at w d k\<close> show ?case
    by (simp add: walk_up.simps [of w root "ancestor w d k" k] marker_at_def)
next
  case (Suc n)
  then have lt: "j < k" by simp
  with Suc.prems have no: "\<not> marker_at w d j" and nr: "ancestor w d j \<noteq> root" by auto
  from lt \<open>k \<le> 20\<close> have "j < 20" by simp
  with no nr have "walk_up w root (ancestor w d j) j = walk_up w root (ancestor w d (Suc j)) (Suc j)"
    by (simp add: walk_up_step marker_at_def ancestor_Suc)
  also have "\<dots> = ancestor w d k"
  proof (rule Suc.hyps(1))
    show "n = k - Suc j" using Suc.hyps(2) by simp
    show "Suc j \<le> k" using lt by simp
    show "k \<le> 20" by fact
    show "marker_at w d k" by fact
    show "\<forall>i. Suc j \<le> i \<and> i < k \<longrightarrow> \<not> marker_at w d i \<and> ancestor w d i \<noteq> root"
      using Suc.prems(4) by auto
  qed
  finally show ?case .
qed

lemma walk_up_stops:
  assumes "j \<le> b" and "ancestor w d b = root \<or> b = 20"
  shows "\<exists>m. j \<le> m \<and> m \<le> b \<and> walk_up w root (ancestor w d j) j = ancestor w d m"
  using assms
proof (induction "b - j" arbitrary: j)
  case 0
  then have "j = b" by simp
  with \<open>ancestor w d b = root \<or> b = 20\<close>
  have "walk_up w root (ancestor w d j) j = ancestor w d j"
    by (auto simp: walk_up.simps [of w root "ancestor w d b" b])
  with \<open>j = b\<close> show ?case by auto
next
  case (Suc n)
  then have lt: "j < b" by simp
  show ?case
  proof (cases "ancestor w d j \<noteq> root \<and> j < 20 \<and> \<not> marker_at w d j")
    case True
    then have step: "walk_up w root (ancestor w d j) j = walk_up w root (ancestor w d (Suc j)) (Suc j)"
      by (simp add: walk_up_step marker_at_def ancestor_Suc)
    have "\<exists>m. Suc j \<le> m \<and> m \<le> b \<and> walk_up w root (ancestor w d (Suc j)) (Suc j) = ancestor w d m"
    proof (rule Suc.hyps(1))
      show "n = b - Suc j" using Suc.hyps(2) by simp
      show "Suc j \<le> b" using lt by simp
      show "ancestor w d b = root \<or> b = 20" by fact
    qed
    with step show ?thesis by (metis Suc_leD)
  next
    case False
    then have "walk_up w root (ancestor w d j) j = ancestor w d j"
      by (auto simp: walk_up.simps [of w root "ancestor w d j" j] marker_at_def)
    with lt show ?thesis by (metis le_refl less_imp_le)
  qed
qed

lemma walk_up_no_marker:
  assumes "ancestor w d b = root \<or> b = 20" and "\<forall>j\<le>b. \<not> marker_at w d j"
  shows "\<not> fs_exists w (path_join w (walk_up w root d 0) ''go.mod'')"
proof -
  from walk_up_stops [of 0 b w d root] assms(1)
  obtain m where "m \<le> b" and "walk_up w root (ancestor w d 0) 0 = ancestor w d m" by auto
  with assms(2) show ?thesis by (auto simp: ancestor_0 marker_at_def)
qed

lemma walk_up_marker:
  assumes "k \<le> 20" and "marker_at w d k"
    and "\<forall>j<k. \<not> marker_at w d j \<and> ancestor w d j \<noteq> root"
  shows "walk_up w root d 0 = ancestor w d k"
  using walk_up_finds [of 0 k w d root] assms by (simp add: ancestor_0)

lemma vet_hook_go_trace:
  assumes "json_parse w (stdin_read chunks) = Some input" and "file_path_of input = Some (Str p)"
    and "ends_with p ''.go''" and "fs_exists w (path_resolve w p)"
    and "d0 = path_dirname w (path_resolve w p)" and "root = path_root w d0"
  shows "fs_exists w (path_join w (walk_up w root d0 0) ''go.mod'') \<Longrightarrow>
           spawned (trace (vet_hook w chunks)) = [vet_spawn (walk_up w root d0 0)]"
    and "\<not> fs_exists w (path_join w (walk_up w root d0 0) ''go.mod'') \<Longrightarrow>
           trace (vet_hook w chunks) =
             \<lparr>stdout = [stdin_read chunks @ [newline]], stderr = [], spawned = []\<rparr>"
proof -
  note t = vet_try_go [OF assms(1-4), of no_effects]
  {
    assume "fs_exists w (path_join w (walk_up w root d0 0) ''go.mod'')"
    then show "spawned (trace (vet_hook w chunks)) = [vet_spawn (walk_up w root d0 0)]"
      unfolding assms(6) assms(5) using t
      by (simp add: vet_hook_trace vet_on_end_spawned Let_def vet_report_spawned no_effects_def
            split: exec_result.split)
  }
  {
    assume "\<not> fs_exists w (path_join w (walk_up w root d0 0) ''go.mod'')"
    then have "vet_try w (stdin_read chunks) no_effects = (Normal, no_effects)"
      unfolding assms(6) assms(5) using t by (simp add: Let_def)
    then show "trace (vet_hook w chunks) =
             \<lparr>stdout = [stdin_read chunks @ [newline]], stderr = [], spawned = []\<rparr>"
      by (simp add: vet_hook_trace vet_on_end_normal console_log_def no_effects_def)
  }
qed

text \<open>
  C3, amended: for an event that names an existing \<^verbatim>\<open>.go\<close> file, with \<open>d0\<close> the directory
  that holds the file, the walk locates the module root, and \<^verbatim>\<open>go vet\<close> runs there,
  whenever the nearest \<^verbatim>\<open>go.mod\<close> is at a depth from 0 through 20 (the directories below
  it being below the filesystem root); and VetHook falls back to a passthrough without
  analysis when there is no \<^verbatim>\<open>go.mod\<close> at any depth from 0 through 20, that is when the
  nearest one is at depth 21 or more, or when there is none up to and including the
  filesystem root.
\<close>

theorem walk_finds_marker:
  assumes "json_parse w (stdin_read chunks) = Some input" and "file_path_of input = Some (Str p)"
    and "ends_with p ''.go''" and "fs_exists w (path_resolve w p)"
    and "d0 = path_dirname w (path_resolve w p)" and "root = path_root w d0"
  shows "(k \<le> 20 \<and> marker_at w d0 k \<and> (\<forall>j<k. \<not> marker_at w d0 j \<and> ancestor w d0 j \<noteq> root)
            \<longrightarrow> spawned (trace (vet_hook w chunks)) = [vet_spawn (ancestor w d0 k)])
         \<and> ((\<forall>j\<le>20. \<not> marker_at w d0 j)
            \<longrightarrow> trace (vet_hook w chunks) =
                  \<lparr>stdout = [stdin_read chunks @ [newline]], stderr = [], spawned = []\<rparr>)
         \<and> (ancestor w d0 r = root \<and> (\<forall>j\<le>r. \<not> marker_at w d0 j)
            \<longrightarrow> trace (vet_hook w chunks) =
                  \<lparr>stdout = [stdin_read chunks @ [newline]], stderr = [], spawned = []\<rparr>)"
proof (intro conjI impI)
  assume h: "k \<le> 20 \<and> marker_at w d0 k \<and> (\<forall>j<k. \<not> marker_at w d0 j \<and> ancestor w d0 j \<noteq> root)"
  then have wk: "walk_up w root d0 0 = ancestor w d0 k" by (simp add: walk_up_marker)
  from h have "fs_exists w (path_join w (walk_up w root d0 0) ''go.mod'')"
    by (simp add: wk marker_at_def)
  from vet_hook_go_trace(1) [OF assms this]
  show "spawned (trace (vet_hook w chunks)) = [vet_spawn (ancestor w d0 k)]" by (simp add: wk)
next
  assume "\<forall>j\<le>20. \<not> marker_at w d0 j"
  then have "\<not> fs_exists w (path_join w (walk_up w root d0 0) ''go.mod'')"
    by (intro walk_up_no_marker [of w d0 20]) simp_all
  from vet_hook_go_trace(2) [OF assms this]
  show "trace (vet_hook w chunks) = \<lparr>stdout = [stdin_read chunks @ [newline]], stderr = [], spawned = []\<rparr>" .
next
  assume "ancestor w d0 r = root \<and> (\<forall>j\<le>r. \<not> marker_at w d0 j)"
  then have "\<not> fs_exists w (path_join w (walk_up w root d0 0) ''go.mod'')"
    by (intro walk_up_no_marker [of w d0 r]) simp_all
  from vet_hook_go_trace(2) [OF assms this]
  show "trace (vet_hook w chunks) = \<lparr>stdout = [stdin_read chunks @ [newline]], stderr = [], spawned = []\<rparr>" .
qed

lemma deep_world_sel:
  "json_parse (deep_world n exec) (edit_event (deep_dir n @ ''/x.go'')) =
     Some (edit_input (deep_dir n @ ''/x.go''))"
  "path_resolve (deep_world n exec) p = p"
  "path_dirname (deep_world n exec) p = posix_dirname p"
  "path_root (deep_world n exec) p = ''/''"
  "path_join (deep_world n exec) d f = posix_join d f"
  "fs_exists (deep_world n exec) p = (p = deep_dir n @ ''/x.go'' \<or> p = ''/m/go.mod'')"
  by (simp_all add: deep_world_def posix_world_def)

lemma length_deep_dir: "length (deep_dir n) = 2 + 2 * n"
  by (induction n) simp_all

lemma deep_dir_not_root: "deep_dir n \<noteq> ''/''"
  using length_deep_dir [of n] by auto

lemma deep_dir_eq_m: "(deep_dir n = ''/m'') = (n = 0)"
  using length_deep_dir [of n] by (cases n) auto

lemma posix_dirname_file: "posix_dirname (deep_dir n @ ''/x.go'') = deep_dir n"
  using deep_dir_not_root [of n] length_deep_dir [of n]
  by (cases "deep_dir n") (simp_all add: posix_dirname_def Let_def)

lemma posix_dirname_deep_Suc: "posix_dirname (deep_dir n @ ''/d'') = deep_dir n"
  using length_deep_dir [of n]
  by (cases "deep_dir n") (simp_all add: posix_dirname_def Let_def)

lemma deep_ancestor: "k \<le> m \<Longrightarrow> ancestor (deep_world n exec) (deep_dir m) k = deep_dir (m - k)"
proof (induction k)
  case 0
  then show ?case by (simp add: ancestor_0)
next
  case (Suc k)
  then have "m - k = Suc (m - Suc k)" by simp
  with Suc show ?case
    by (simp add: ancestor_Suc deep_world_sel posix_dirname_deep_Suc)
qed

lemma deep_join_not_file: "deep_dir j @ ''/go.mod'' \<noteq> deep_dir n @ ''/x.go''"
proof
  assume "deep_dir j @ ''/go.mod'' = deep_dir n @ ''/x.go''"
  then have "last (deep_dir j @ ''/go.mod'') = last (deep_dir n @ ''/x.go'')" by simp
  then show False by simp
qed

lemma deep_marker: "k \<le> m \<Longrightarrow> marker_at (deep_world n exec) (deep_dir m) k = (k = m)"
  using deep_dir_not_root [of "m - k"] deep_join_not_file [of "m - k" n]
  by (auto simp: marker_at_def deep_ancestor deep_world_sel posix_join_def deep_dir_eq_m)

lemma ends_with_deep_file: "ends_with (deep_dir n @ ''/x.go'') ''.go''"
  by (simp add: ends_with_def)

lemma deep_facts:
  "json_parse (deep_world n exec) (stdin_read [edit_event (deep_dir n @ ''/x.go'')]) =
     Some (edit_input (deep_dir n @ ''/x.go''))"
  "fs_exists (deep_world n exec) (path_resolve (deep_world n exec) (deep_dir n @ ''/x.go''))"
  "deep_dir n = path_dirname (deep_world n exec) (path_resolve (deep_world n exec) (deep_dir n @ ''/x.go''))"
  "''/'' = path_root (deep_world n exec) (deep_dir n)"
  by (simp_all add: stdin_read_single deep_world_sel posix_dirname_file)

lemma deep_20_nearest:
  "\<forall>j<20. \<not> marker_at (deep_world 20 exec) (deep_dir 20) j
          \<and> ancestor (deep_world 20 exec) (deep_dir 20) j \<noteq> ''/''"
  by (simp add: deep_marker deep_ancestor deep_dir_not_root)

text \<open>
  C3 as stated (the walk fails when the nearest \<^verbatim>\<open>go.mod\<close> is at depth 20 or more) fails
  at depth 20: the loop leaves \<^verbatim>\<open>dir\<close> at the directory 20 levels up, and the test after
  the loop finds the \<^verbatim>\<open>go.mod\<close> there. With \<^verbatim>\<open>x.go\<close> 20 levels below \<^verbatim>\<open>/m\<close>, the only
  \<^verbatim>\<open>go.mod\<close> is at depth 20 and \<^verbatim>\<open>go vet\<close> runs in \<^verbatim>\<open>/m\<close>.
\<close>

theorem marker_at_depth_20_found:
  "path_dirname (deep_world 20 (\<lambda>sp. Exec_ok))
      (path_resolve (deep_world 20 (\<lambda>sp. Exec_ok)) (deep_dir 20 @ ''/x.go'')) = deep_dir 20
   \<and> marker_at (deep_world 20 (\<lambda>sp. Exec_ok)) (deep_dir 20) 20
   \<and> \<not> list_ex (marker_at (deep_world 20 (\<lambda>sp. Exec_ok)) (deep_dir 20)) [0..<20]
   \<and> spawned (trace (vet_hook (deep_world 20 (\<lambda>sp. Exec_ok)) [edit_event (deep_dir 20 @ ''/x.go'')]))
       = [vet_spawn ''/m'']"
proof -
  let ?w = "deep_world 20 (\<lambda>sp. Exec_ok)"
  have m: "marker_at ?w (deep_dir 20) 20" by (simp add: deep_marker)
  have n: "\<not> list_ex (marker_at ?w (deep_dir 20)) [0..<20]"
    by (simp add: list_ex_iff deep_marker)
  have "walk_up ?w ''/'' (deep_dir 20) 0 = ancestor ?w (deep_dir 20) 20"
    using m deep_20_nearest by (intro walk_up_marker) simp_all
  then have wk: "walk_up ?w ''/'' (deep_dir 20) 0 = ''/m''" by (simp add: deep_ancestor)
  have "fs_exists ?w (path_join ?w (walk_up ?w ''/'' (deep_dir 20) 0) ''go.mod'')"
    by (simp add: wk deep_world_sel posix_join_def)
  from vet_hook_go_trace(1) [OF deep_facts(1) file_path_of_edit_input ends_with_deep_file
        deep_facts(2,3,4) this]
  have "spawned (trace (vet_hook ?w [edit_event (deep_dir 20 @ ''/x.go'')])) = [vet_spawn ''/m'']"
    by (simp add: wk)
  with m n deep_facts(3) [of 20 "\<lambda>sp. Exec_ok", symmetric] show ?thesis by simp
qed


lemma repo_facts:
  "json_parse (repo_world files exec) (stdin_read [edit_event ''/repo/pkg/x.go'']) =
     Some (edit_input ''/repo/pkg/x.go'')"
  "''/repo/pkg'' = path_dirname (repo_world files exec)
                    (path_resolve (repo_world files exec) ''/repo/pkg/x.go'')"
  "''/'' = path_root (repo_world files exec) ''/repo/pkg''"
  by (simp_all add: stdin_read_single repo_parse_go repo_world_sel posix_dirname_def Let_def)

lemma repo_ancestors:
  "ancestor (repo_world files exec) ''/repo/pkg'' 0 = ''/repo/pkg''"
  "ancestor (repo_world files exec) ''/repo/pkg'' 1 = ''/repo''"
  "ancestor (repo_world files exec) ''/repo/pkg'' 2 = ''/''"
  by (simp_all add: ancestor_def eval_nat_numeral repo_world_sel posix_dirname_def Let_def)

lemma repo_no_marker:
  "\<not> list_ex (marker_at (repo_world [''/repo/pkg/x.go''] exec) ''/repo/pkg'') [0..<3]"
proof -
  have "[0..<3] = [0, 1, 2]" by (simp add: upt_rec)
  then show ?thesis
    by (simp add: marker_at_def repo_ancestors repo_world_sel posix_join_def)
qed

theorem walk_finds_marker_witness:
  "marker_at (deep_world 20 (\<lambda>sp. Exec_ok)) (deep_dir 20) 20
   \<and> \<not> list_ex (\<lambda>j. marker_at (deep_world 20 (\<lambda>sp. Exec_ok)) (deep_dir 20) j
                     \<or> ancestor (deep_world 20 (\<lambda>sp. Exec_ok)) (deep_dir 20) j = ''/'') [0..<20]
   \<and> ancestor (deep_world 20 (\<lambda>sp. Exec_ok)) (deep_dir 20) 20 = ''/m''
   \<and> spawned (trace (vet_hook (deep_world 20 (\<lambda>sp. Exec_ok)) [edit_event (deep_dir 20 @ ''/x.go'')]))
       = [vet_spawn ''/m'']
   \<and> \<not> list_ex (marker_at (deep_world 21 (\<lambda>sp. Exec_ok)) (deep_dir 21)) [0..<21]
   \<and> trace (vet_hook (deep_world 21 (\<lambda>sp. Exec_ok)) [edit_event (deep_dir 21 @ ''/x.go'')])
       = \<lparr>stdout = [edit_event (deep_dir 21 @ ''/x.go'') @ [newline]], stderr = [], spawned = []\<rparr>
   \<and> ancestor (repo_world [''/repo/pkg/x.go''] (\<lambda>sp. Exec_ok)) ''/repo/pkg'' 2 = ''/''
   \<and> \<not> list_ex (marker_at (repo_world [''/repo/pkg/x.go''] (\<lambda>sp. Exec_ok)) ''/repo/pkg'') [0..<3]
   \<and> trace (vet_hook (repo_world [''/repo/pkg/x.go''] (\<lambda>sp. Exec_ok)) [edit_event ''/repo/pkg/x.go''])
       = \<lparr>stdout = [edit_event ''/repo/pkg/x.go'' @ [newline]], stderr = [], spawned = []\<rparr>"
proof -
  let ?w20 = "deep_world 20 (\<lambda>sp. Exec_ok)"
  let ?w21 = "deep_world 21 (\<lambda>sp. Exec_ok)"
  let ?wA = "repo_world [''/repo/pkg/x.go''] (\<lambda>sp. Exec_ok)"
  have m20: "marker_at ?w20 (deep_dir 20) 20" by (simp add: deep_marker)
  have n20: "\<not> list_ex (\<lambda>j. marker_at ?w20 (deep_dir 20) j \<or> ancestor ?w20 (deep_dir 20) j = ''/'') [0..<20]"
    by (simp add: list_ex_iff deep_marker deep_ancestor deep_dir_not_root)
  then have n20': "\<forall>j<20. \<not> marker_at ?w20 (deep_dir 20) j \<and> ancestor ?w20 (deep_dir 20) j \<noteq> ''/''"
    by (simp add: list_ex_iff)
  have a20: "ancestor ?w20 (deep_dir 20) 20 = ''/m''" by (simp add: deep_ancestor)
  note t20 = walk_finds_marker [where k = 20 and r = 0, OF deep_facts(1) file_path_of_edit_input
      ends_with_deep_file deep_facts(2,3,4)]
  from t20 m20 n20' have "spawned (trace (vet_hook ?w20 [edit_event (deep_dir 20 @ ''/x.go'')]))
       = [vet_spawn (ancestor ?w20 (deep_dir 20) 20)]" by blast
  then have s20: "spawned (trace (vet_hook ?w20 [edit_event (deep_dir 20 @ ''/x.go'')])) = [vet_spawn ''/m'']"
    by (simp add: a20)
  have n21: "\<not> list_ex (marker_at ?w21 (deep_dir 21)) [0..<21]"
    by (simp add: list_ex_iff deep_marker)
  then have n21': "\<forall>j\<le>20. \<not> marker_at ?w21 (deep_dir 21) j"
    by (simp add: list_ex_iff)
  note t21 = walk_finds_marker [where k = 0 and r = 0, OF deep_facts(1) file_path_of_edit_input
      ends_with_deep_file deep_facts(2,3,4)]
  from t21 n21' have s21: "trace (vet_hook ?w21 [edit_event (deep_dir 21 @ ''/x.go'')])
       = \<lparr>stdout = [stdin_read [edit_event (deep_dir 21 @ ''/x.go'')] @ [newline]], stderr = [], spawned = []\<rparr>"
    by blast
  have aA: "ancestor ?wA ''/repo/pkg'' 2 = ''/''" by (rule repo_ancestors)
  have nA: "\<not> list_ex (marker_at ?wA ''/repo/pkg'') [0..<3]" by (rule repo_no_marker)
  then have nA': "\<forall>j\<le>2. \<not> marker_at ?wA ''/repo/pkg'' j"
    by (auto simp: list_ex_iff)
  have exA: "fs_exists ?wA (path_resolve ?wA ''/repo/pkg/x.go'')" by (simp add: repo_world_sel)
  note tA = walk_finds_marker [where k = 0 and r = 2, OF repo_facts(1) file_path_of_edit_input
      ends_with_x_go exA repo_facts(2,3)]
  from tA aA nA' have sA: "trace (vet_hook ?wA [edit_event ''/repo/pkg/x.go''])
       = \<lparr>stdout = [stdin_read [edit_event ''/repo/pkg/x.go''] @ [newline]], stderr = [], spawned = []\<rparr>"
    by blast
  from m20 n20 a20 s20 n21 s21 aA nA sA show ?thesis by (simp add: stdin_read_single)
qed

end
